theory Spec2Isabelle
  imports Complex_Main "HOL-Library.Product_Lexorder" "HOL-Library.Multiset"
begin

section \<open>Gismo Terrain Generator: input checking, radius clamping, clipping\<close>

text \<open>
  The development embeds the decision logic of \<^verbatim>\<open>Gismo_Terrain Generator.py\<close>.
  Python numbers are idealised as HOL reals (IEEE rounding, NaN and infinities are not
  represented); where the embedded code raises, the model returns an error value.
  Calls into the Rhino geometry kernel and into the other Gismo components are parameters
  of the definitions that use their results.
\<close>

subsection \<open>Python values and errors\<close>

datatype py_error = ZeroDivisionError | TypeError | IndexError | NameError

text \<open>\<^verbatim>\<open>int(x)\<close> on a float truncates towards zero.\<close>

definition py_int :: "real \<Rightarrow> int" where
  "py_int x = (if 0 \<le> x then \<lfloor>x\<rfloor> else \<lceil>x\<rceil>)"

text \<open>\<^verbatim>\<open>round(x, 2)\<close> of Python 2 rounds half away from zero.\<close>

definition py_round2 :: "real \<Rightarrow> real" where
  "py_round2 x =
     (if 0 \<le> x then real_of_int \<lfloor>x * 100 + 1 / 2\<rfloor> / 100
      else - (real_of_int \<lfloor>- x * 100 + 1 / 2\<rfloor> / 100))"

record point3d =
  X :: real
  Y :: real
  Z :: real

definition scaleFactor :: real where
  "scaleFactor = 0.01"

subsection \<open>checkInputData\<close>

text \<open>
  What \<^verbatim>\<open>checkInputData\<close> reads besides its arguments: the presence of the MapWinGIS
  entries in \<^verbatim>\<open>sc.sticky\<close>, the verdict of \<^verbatim>\<open>gismo_mainComponent.mapWinGIS\<close> and the
  result of \<^verbatim>\<open>gismo_preparation.createFolder\<close>.
\<close>

record environment =
  has_mapwingisFolder :: bool
  mapWinGIS_valid :: bool
  has_MapWinGIS :: bool
  folderCreatedSuccess :: bool

text \<open>The \<^verbatim>\<open>north_\<close> input is a number (degrees) or a vector.\<close>

datatype north_input = NorthNumber real | NorthVector point3d

text \<open>One constructor for each \<^verbatim>\<open>validInputData = False\<close> return, in the order of the source.\<close>

datatype input_error =
    MapWinGISInvalid
  | GismoNotRun
  | RadiusBelow20
  | RadiusAbove100000
  | NorthOutOfRange
  | GismoFolderInvalid

record input_data =
  maxVisibilityRadiusM :: real
  type_checked :: int
  typeLabel :: string
  origin_checked :: point3d
  northRad :: real
  northDeg :: int
  standThickness_checked :: real
  numOfContours_checked :: int

definition check_type :: "int option \<Rightarrow> int \<times> string" where
  "check_type t =
     (case t of
        None \<Rightarrow> (1, ''mesh-circular'')
      | Some k \<Rightarrow>
          if k = 0 then (0, ''mesh-rectangular'')
          else if k = 1 then (1, ''mesh-circular'')
          else if k = 2 then (2, ''surface-rectangular'')
          else if k = 3 then (3, ''surface-circular'')
          else (0, ''mesh-rectangular''))"

definition check_standThickness :: "real option \<Rightarrow> real" where
  "check_standThickness s =
     (case s of None \<Rightarrow> 0 | Some v \<Rightarrow> if v < 0 then 0 else v)"

definition check_numOfContours :: "int option \<Rightarrow> int" where
  "check_numOfContours n =
     (case n of None \<Rightarrow> 10 | Some v \<Rightarrow> if v < 0 then 0 else v)"

text \<open>
  The radius branch of \<^verbatim>\<open>checkInputData\<close> (the \<^verbatim>\<open>if/elif\<close> chain on
  \<^verbatim>\<open>maxVisibilityRadiusM\<close>), in the order of the source.
\<close>

definition check_radius :: "real option \<Rightarrow> input_error + real" where
  "check_radius radius =
     (case radius of
        None \<Rightarrow> Inr 200
      | Some r \<Rightarrow>
          if 20 \<le> r \<and> r < 200 then Inr 200
          else if r < 20 then Inl RadiusBelow20
          else if 100000 < r then Inl RadiusAbove100000
          else Inr r)"

text \<open>
  \<^verbatim>\<open>northDeg = int(360-math.degrees(northRad))\<close>, and 360 becomes 0.
\<close>

definition north_degrees :: "real \<Rightarrow> int" where
  "north_degrees nr =
     (let d = py_int (360 - nr * 180 / pi) in if d = 360 then 0 else d)"

text \<open>
  The \<^verbatim>\<open>north\<close> branch: a number outside 0..360 is refused, a vector is accepted. The
  parameter \<open>angle2northClockwise\<close> stands for the method of that name of
  \<^verbatim>\<open>gismo_preparation\<close>, which returns the north angle in radians.
\<close>

definition check_north :: "(north_input \<Rightarrow> real) \<Rightarrow> north_input option \<Rightarrow> input_error + real" where
  "check_north angle2northClockwise north =
     (case north of
        None \<Rightarrow> Inr 0
      | Some (NorthNumber n) \<Rightarrow>
          if n < 0 \<or> 360 < n then Inl NorthOutOfRange
          else Inr (angle2northClockwise (NorthNumber n))
      | Some (NorthVector v) \<Rightarrow> Inr (angle2northClockwise (NorthVector v)))"

text \<open>
  \<^verbatim>\<open>checkInputData\<close>: the MapWinGIS checks, the defaults, the radius chain, the north
  check and the creation of the working folder, each returning at once when it fails.
\<close>

definition checkInputData ::
  "environment \<Rightarrow> (north_input \<Rightarrow> real) \<Rightarrow> real option \<Rightarrow> int option \<Rightarrow> point3d option \<Rightarrow>
   north_input option \<Rightarrow> real option \<Rightarrow> int option \<Rightarrow> input_error + input_data" where
  "checkInputData env angle2northClockwise radius t origin north standThickness numOfContours =
     (if has_mapwingisFolder env then
        if mapWinGIS_valid env then
          if has_MapWinGIS env then
            case check_radius radius of
              Inl e \<Rightarrow> Inl e
            | Inr r \<Rightarrow>
                (case check_north angle2northClockwise north of
                   Inl e \<Rightarrow> Inl e
                 | Inr nr \<Rightarrow>
                     if folderCreatedSuccess env then
                       Inr \<lparr> maxVisibilityRadiusM = r,
                             type_checked = fst (check_type t),
                             typeLabel = snd (check_type t),
                             origin_checked =
                               (case origin of None \<Rightarrow> \<lparr>X = 0, Y = 0, Z = 0\<rparr> | Some p \<Rightarrow> p),
                             northRad = nr,
                             northDeg = north_degrees nr,
                             standThickness_checked = check_standThickness standThickness,
                             numOfContours_checked = check_numOfContours numOfContours \<rparr>
                     else Inl GismoFolderInvalid)
          else Inl GismoNotRun
        else Inl MapWinGISInvalid
      else Inl GismoNotRun)"

text \<open>
  The inputs other than the radius pass \<^verbatim>\<open>checkInputData\<close>: Gismo and MapWinGIS are
  set up, the folder can be created and a numeric north lies in 0..360.
\<close>

definition other_inputs_ok :: "environment \<Rightarrow> north_input option \<Rightarrow> bool" where
  "other_inputs_ok env north =
     (has_mapwingisFolder env \<and> mapWinGIS_valid env \<and> has_MapWinGIS env \<and>
      folderCreatedSuccess env \<and>
      (case north of Some (NorthNumber n) \<Rightarrow> 0 \<le> n \<and> n \<le> 360 | _ \<Rightarrow> True))"

subsection \<open>split\_createStand\_colorTerrain: the cutting radius and the cutting solid\<close>

text \<open>
  The function reads the global \<^verbatim>\<open>radius_\<close>, the component's raw input, which is
  \<^verbatim>\<open>None\<close> when nothing is plugged in. In Python 2 \<^verbatim>\<open>None < 200\<close> is true, so the
  first branch is taken and \<^verbatim>\<open>None / unitConversionFactor2\<close> raises a TypeError.
  A zero \<^verbatim>\<open>unitConversionFactor2\<close> raises a ZeroDivisionError.
\<close>

definition cuttingRadiusScaled :: "real option \<Rightarrow> real \<Rightarrow> py_error + real" where
  "cuttingRadiusScaled radius_input unitConversionFactor2 =
     (case radius_input of
        None \<Rightarrow> Inl TypeError
      | Some r \<Rightarrow>
          if unitConversionFactor2 = 0 then Inl ZeroDivisionError
          else if r < 200 then Inr (r / unitConversionFactor2 * scaleFactor)
          else Inr ((r * 0.9) / unitConversionFactor2 * scaleFactor))"

text \<open>
  The solid the terrain is split with: \<^verbatim>\<open>Rhino.Geometry.Box\<close> on the horizontal plane
  through the location point with its three intervals, or \<^verbatim>\<open>Rhino.Geometry.Sphere\<close>
  with its centre and radius.
\<close>

datatype solid =
    Box point3d "real \<times> real" "real \<times> real" "real \<times> real"
  | Sphere point3d real

definition cutting_solid :: "int \<Rightarrow> point3d \<Rightarrow> real \<Rightarrow> py_error + solid" where
  "cutting_solid t locationPt c =
     (if t = 0 then Inr (Box locationPt (- c, c) (- c, c) (- c * 8, c * 8))
      else if t = 1 then Inr (Sphere locationPt c)
      else if t = 2 then Inr (Box locationPt (- c, c) (- c, c) (- c * 5, c * 5))
      else if t = 3 then Inr (Sphere locationPt c)
      else Inl NameError)"

text \<open>
  The radii of one run of the component's body: \<^verbatim>\<open>checkInputData\<close> yields the working
  radius \<^verbatim>\<open>maxVisibilityRadiusM\<close>, which is passed to \<^verbatim>\<open>checkObjRasterFile\<close> (radius
  clamping, bounding region, raster download); \<^verbatim>\<open>split_createStand_colorTerrain\<close> then
  computes the cutting radius from the raw \<^verbatim>\<open>radius_\<close>.
\<close>

definition run_radii ::
  "environment \<Rightarrow> (north_input \<Rightarrow> real) \<Rightarrow> real option \<Rightarrow> int option \<Rightarrow> point3d option \<Rightarrow>
   north_input option \<Rightarrow> real option \<Rightarrow> int option \<Rightarrow> real \<Rightarrow>
   input_error + (real \<times> (py_error + real))" where
  "run_radii env angle2northClockwise radius_input t origin north standThickness numOfContours ucf2 =
     (case checkInputData env angle2northClockwise radius_input t origin north standThickness
             numOfContours of
        Inl e \<Rightarrow> Inl e
      | Inr d \<Rightarrow> Inr (maxVisibilityRadiusM d, cuttingRadiusScaled radius_input ucf2))"

subsection \<open>distanceBetweenTwoPoints: Vincenty's inverse solution and the radius policy\<close>

definition wgs84_a :: real where
  "wgs84_a = 6378137"

definition wgs84_b :: real where
  "wgs84_b = 6356752.314245"

definition wgs84_f :: real where
  "wgs84_f = 0.00335281066474"

definition radians :: "real \<Rightarrow> real" where
  "radians x = x * pi / 180"

definition degrees :: "real \<Rightarrow> real" where
  "degrees x = x * 180 / pi"

text \<open>\<^verbatim>\<open>math.atan2(y, x)\<close> on reals (signed zeros are not represented).\<close>

definition atan2 :: "real \<Rightarrow> real \<Rightarrow> real" where
  "atan2 y x =
     (if 0 < x then arctan (y / x)
      else if x < 0 \<and> 0 \<le> y then arctan (y / x) + pi
      else if x < 0 then arctan (y / x) - pi
      else if 0 < y then pi / 2
      else if y < 0 then - (pi / 2)
      else 0)"

text \<open>
  \<^verbatim>\<open>math.tan\<close>. Latitudes lie between -90 and 90 degrees. At the poles the float
  nearest to a quarter turn is not the quarter turn itself and \<^verbatim>\<open>math.tan\<close> returns
  the finite value \<^verbatim>\<open>1.633123935319537e+16\<close> (negated at the south pole), where the
  tangent of the exact angle does not exist; the model takes the value of the code there.
\<close>

definition py_tan :: "real \<Rightarrow> real" where
  "py_tan x =
     (if x = pi / 2 then 16331239353195370
      else if x = - (pi / 2) then - 16331239353195370
      else tan x)"

text \<open>The variables of the iteration that are read after the loop.\<close>

record inverse_state =
  longitudeR :: real
  sinLongitudeR :: real
  cosLongitudeR :: real
  sinSigma :: real
  cosSigma :: real
  sigma :: real
  cosSqBearingAngleR :: real
  cos2SigmaM :: real

text \<open>
  One pass through the body of \<^verbatim>\<open>for i in range(100)\<close>. The division by
  \<^verbatim>\<open>sinSigma\<close> is not guarded in the source and raises when \<^verbatim>\<open>sinSigma\<close> is zero; the
  division by \<^verbatim>\<open>cosSqBearingAngleR\<close> is guarded by the test for zero.
\<close>

definition inverse_step ::
  "real \<Rightarrow> real \<Rightarrow> real \<Rightarrow> real \<Rightarrow> real \<Rightarrow> real \<Rightarrow> py_error + inverse_state" where
  "inverse_step L sinU1 cosU1 sinU2 cosU2 lam =
     (let sinLam = sin lam;
          cosLam = cos lam;
          sinSqSigma = (cosU2 * sinLam) * (cosU2 * sinLam)
            + (cosU1 * sinU2 - sinU1 * cosU2 * cosLam) * (cosU1 * sinU2 - sinU1 * cosU2 * cosLam);
          sinSig = sqrt sinSqSigma;
          cosSig = sinU1 * sinU2 + cosU1 * cosU2 * cosLam;
          sig = atan2 sinSig cosSig
      in if sinSig = 0 then Inl ZeroDivisionError
         else
           let sinBearingAngleR = cosU1 * cosU2 * sinLam / sinSig;
               cosSq = 1 - sinBearingAngleR * sinBearingAngleR;
               c2sm = (if cosSq = 0 then 0 else cosSig - 2 * sinU1 * sinU2 / cosSq);
               C = wgs84_f / 16 * cosSq * (4 + wgs84_f * (4 - 3 * cosSq))
           in Inr \<lparr> longitudeR =
                      L + (1 - C) * wgs84_f * sinBearingAngleR
                        * (sig + C * sinSig * (c2sm + C * cosSig * (- 1 + 2 * c2sm * c2sm))),
                    sinLongitudeR = sinLam,
                    cosLongitudeR = cosLam,
                    sinSigma = sinSig,
                    cosSigma = cosSig,
                    sigma = sig,
                    cosSqBearingAngleR = cosSq,
                    cos2SigmaM = c2sm \<rparr>)"

text \<open>
  The loop, by the number of passes; a pass that raises ends it. After no pass at all the
  variables read below would be unbound.
\<close>

fun inverse_loop ::
  "nat \<Rightarrow> (real \<Rightarrow> py_error + inverse_state) \<Rightarrow> real \<Rightarrow> py_error + inverse_state" where
  "inverse_loop 0 step lam = Inl NameError"
| "inverse_loop (Suc 0) step lam = step lam"
| "inverse_loop (Suc (Suc n)) step lam =
     (case step lam of
        Inl e \<Rightarrow> Inl e
      | Inr st \<Rightarrow> inverse_loop (Suc n) step (longitudeR st))"

text \<open>The latitude bound of the SRTM data on the side of the location.\<close>

definition SRTM_latitude :: "real \<Rightarrow> real" where
  "SRTM_latitude latitude1D = (if 0 \<le> latitude1D then 60 else - 56)"

text \<open>
  The inverse solution as the source computes it, from the location to the point of the
  bound latitude on the meridian of the location: distance in meters, forward and reverse
  bearing in degrees.
\<close>

definition vincenty_inverse :: "real \<Rightarrow> real \<Rightarrow> py_error + (real \<times> real \<times> real)" where
  "vincenty_inverse latitude1D longitude1D =
     (let latitude2D = SRTM_latitude latitude1D;
          longitude2D = longitude1D;
          latitude1R = radians latitude1D;
          latitude2R = radians latitude2D;
          longitude1R = radians longitude1D;
          longitude2R = radians longitude2D;
          L = longitude2R - longitude1R;
          tanU1 = (1 - wgs84_f) * py_tan latitude1R;
          cosU1 = 1 / sqrt (1 + tanU1 * tanU1);
          sinU1 = tanU1 * cosU1;
          tanU2 = (1 - wgs84_f) * py_tan latitude2R;
          cosU2 = 1 / sqrt (1 + tanU2 * tanU2);
          sinU2 = tanU2 * cosU2
      in case inverse_loop 100 (inverse_step L sinU1 cosU1 sinU2 cosU2) L of
           Inl e \<Rightarrow> Inl e
         | Inr st \<Rightarrow>
             let uSq = cosSqBearingAngleR st * (wgs84_a * wgs84_a - wgs84_b * wgs84_b)
                         / (wgs84_b * wgs84_b);
                 A = 1 + uSq / 16384 * (4096 + uSq * (- 768 + uSq * (320 - 175 * uSq)));
                 B = uSq / 1024 * (256 + uSq * (- 128 + uSq * (74 - 47 * uSq)));
                 deltaSigma = B * sinSigma st * (cos2SigmaM st + B / 4
                   * (cosSigma st * (- 1 + 2 * cos2SigmaM st * cos2SigmaM st)
                      - B / 6 * cos2SigmaM st * (- 3 + 4 * sinSigma st * sinSigma st)
                          * (- 3 + 4 * cos2SigmaM st * cos2SigmaM st)));
                 distanceM = wgs84_b * A * (sigma st - deltaSigma);
                 bearingAngleForwardR = atan2 (cosU2 * sinLongitudeR st)
                   (cosU1 * sinU2 - sinU1 * cosU2 * cosLongitudeR st);
                 bearingAngleReverseR = atan2 (cosU1 * sinLongitudeR st)
                   (- sinU1 * cosU2 + cosU1 * sinU2 * cosLongitudeR st)
             in Inr (distanceM, degrees bearingAngleForwardR, degrees bearingAngleReverseR))"

text \<open>
  The three values the function returns: \<^verbatim>\<open>correctedMaskRadiusM\<close> (the string
  \<^verbatim>\<open>"dummy"\<close> or a number), \<^verbatim>\<open>validVisibilityRadiusM\<close> and \<^verbatim>\<open>printMsg\<close>, of which the
  kind and the inserted values are kept.
\<close>

datatype corrected_radius = Dummy | Meters real

datatype radius_message =
    TooCloseToBoundary string
  | SupplyRadius int string
  | Ok

definition radius_policy :: "real \<Rightarrow> real \<Rightarrow> real \<Rightarrow> corrected_radius \<times> bool \<times> radius_message" where
  "radius_policy latitude1D distanceM maxVisibilityRadius =
     (let SRTMlimit = (if 0 \<le> latitude1D then ''60 North'' else ''-56 South'')
      in if distanceM < 200 then (Dummy, False, TooCloseToBoundary SRTMlimit)
         else if distanceM < maxVisibilityRadius then
           (Meters (of_int (py_int distanceM)), False, SupplyRadius (py_int distanceM) SRTMlimit)
         else (Meters maxVisibilityRadius, True, Ok))"

definition distanceBetweenTwoPoints ::
  "real \<Rightarrow> real \<Rightarrow> real \<Rightarrow> py_error + (corrected_radius \<times> bool \<times> radius_message)" where
  "distanceBetweenTwoPoints latitude1D longitude1D maxVisibilityRadius =
     (case vincenty_inverse latitude1D longitude1D of
        Inl e \<Rightarrow> Inl e
      | Inr (distanceM, bearingAngleForwardD, bearingAngleReverseD) \<Rightarrow>
           Inr (radius_policy latitude1D distanceM maxVisibilityRadius))"

subsection \<open>createTerrainMeshBrep: the location point and its elevation\<close>

text \<open>\<^verbatim>\<open>Ray3d.PointAt(t)\<close>: the point at parameter \<open>t\<close> from the start of the ray.\<close>

definition PointAt :: "point3d \<Rightarrow> point3d \<Rightarrow> real \<Rightarrow> point3d" where
  "PointAt start direction t =
     \<lparr>X = X start + t * X direction, Y = Y start + t * Y direction,
      Z = Z start + t * Z direction\<rparr>"

text \<open>
  The end of \<^verbatim>\<open>createTerrainMeshBrep\<close>. The parameter \<open>MeshRay\<close> stands for
  \<^verbatim>\<open>Rhino.Geometry.Intersect.Intersection.MeshRay\<close>, called with the terrain mesh and the
  ray (start and direction): it returns the parameter of the first hit along the ray, and
  a negative number when the ray does not meet the mesh. The source reads the point at the
  returned parameter whatever its sign.
\<close>

definition locationPt_elevationM ::
  "('mesh \<Rightarrow> point3d \<times> point3d \<Rightarrow> real) \<Rightarrow> 'mesh \<Rightarrow> real \<Rightarrow> py_error + (point3d \<times> real)" where
  "locationPt_elevationM MeshRay terrainMesh unitConversionFactor2 =
     (if unitConversionFactor2 = 0 then Inl ZeroDivisionError
      else
        let safeHeightDummy = 10000 / unitConversionFactor2;
            origin_0_0_0 = \<lparr>X = 0, Y = 0, Z = 0\<rparr>;
            elevatedOrigin = \<lparr>X = X origin_0_0_0, Y = Y origin_0_0_0,
                              Z = (Z origin_0_0_0 + safeHeightDummy) * scaleFactor\<rparr>;
            ray = (elevatedOrigin, \<lparr>X = 0, Y = 0, Z = - 1\<rparr>);
            rayIntersectParam = MeshRay terrainMesh ray;
            locationPt = PointAt (fst ray) (snd ray) rayIntersectParam;
            elevationM = py_round2 (Z locationPt / scaleFactor)
        in Inr (locationPt, elevationM))"

subsection \<open>split\_createStand\_colorTerrain: the fragment that is kept\<close>

text \<open>\<^verbatim>\<open>Point3d.DistanceTo\<close>: the Euclidean distance in space.\<close>

definition DistanceTo :: "point3d \<Rightarrow> point3d \<Rightarrow> real" where
  "DistanceTo p q = sqrt ((X p - X q)\<^sup>2 + (Y p - Y q)\<^sup>2 + (Z p - Z q)\<^sup>2)"

text \<open>
  The list of pairs (distance of the centroid to the location point, index), sorted as
  Python sorts tuples: by distance, then by index. The parameter \<open>Centroid\<close> stands for
  \<^verbatim>\<open>Rhino.Geometry.AreaMassProperties.Compute(splittedMesh).Centroid\<close>.
\<close>

definition tupleDistanceToLocationPt ::
  "('frag \<Rightarrow> point3d) \<Rightarrow> point3d \<Rightarrow> 'frag list \<Rightarrow> (real \<times> nat) list" where
  "tupleDistanceToLocationPt Centroid locationPt terrainMeshesSplitted =
     sort (map (\<lambda>(i, splittedMesh). (DistanceTo (Centroid splittedMesh) locationPt, i))
             (List.enumerate 0 terrainMeshesSplitted))"

text \<open>
  \<^verbatim>\<open>terrainMeshesSplitted[tupleDistanceToLocationPt[0][1]]\<close>; both subscripts raise
  an IndexError out of range.
\<close>

definition terrain_MeshOrBrep_Splitted ::
  "('frag \<Rightarrow> point3d) \<Rightarrow> point3d \<Rightarrow> 'frag list \<Rightarrow> py_error + 'frag" where
  "terrain_MeshOrBrep_Splitted Centroid locationPt terrainMeshesSplitted =
     (case tupleDistanceToLocationPt Centroid locationPt terrainMeshesSplitted of
        [] \<Rightarrow> Inl IndexError
      | (d, i) # rest \<Rightarrow>
          if i < length terrainMeshesSplitted then Inr (terrainMeshesSplitted ! i)
          else Inl IndexError)"

subsection \<open>createElevationContours: the slicing planes\<close>

text \<open>
  The heights of the slicing planes. The vertical edge of the bounding box runs from the
  lowest to the highest height of the terrain; \<open>DivideByCount\<close> stands for Rhino's
  \<^verbatim>\<open>Curve.DivideByCount(segmentCount, includeEnds)\<close> on that edge, which returns curve
  parameters, and \<^verbatim>\<open>Line.PointAt(t)\<close> is the point at the fraction \<open>t\<close> of the edge.
\<close>

definition elevationContours_planeOrigins ::
  "(real \<times> real \<Rightarrow> int \<Rightarrow> bool \<Rightarrow> real list) \<Rightarrow> real \<times> real \<Rightarrow> int \<Rightarrow> real list" where
  "elevationContours_planeOrigins DivideByCount terrainBB_verticalEdge numOfContours =
     map (\<lambda>t. fst terrainBB_verticalEdge
                + t * (snd terrainBB_verticalEdge - fst terrainBB_verticalEdge))
       (DivideByCount terrainBB_verticalEdge numOfContours False)"

text \<open>
  \<^verbatim>\<open>title_scalingRotating\<close> tests the raw input \<^verbatim>\<open>numOfContours_\<close> and passes the
  checked \<^verbatim>\<open>numOfContours\<close> on; in Python 2 \<^verbatim>\<open>None > 0\<close> is false.
\<close>

definition contour_plane_heights ::
  "(real \<times> real \<Rightarrow> int \<Rightarrow> bool \<Rightarrow> real list) \<Rightarrow> real \<times> real \<Rightarrow> int option \<Rightarrow> int \<Rightarrow> real list" where
  "contour_plane_heights DivideByCount terrainBB_verticalEdge numOfContours_input numOfContours =
     (case numOfContours_input of
        None \<Rightarrow> []
      | Some n \<Rightarrow>
          if 0 < n then
            elevationContours_planeOrigins DivideByCount terrainBB_verticalEdge numOfContours
          else [])"

section \<open>Properties\<close>

subsection \<open>Input checking and the radii of a run\<close>

lemma checkInputData_radius:
  assumes "other_inputs_ok env north"
  shows "map_sum id maxVisibilityRadiusM
           (checkInputData env a2n radius t origin north st nc) = check_radius radius"
  using assms
  by (auto simp: checkInputData_def other_inputs_ok_def check_north_def
      split: sum.splits option.splits north_input.splits)

lemma radius_outside_range_rejected:
  assumes "other_inputs_ok env north"
  shows "(\<exists>e. checkInputData env a2n (Some r) t origin north st nc = Inl e)
          \<longleftrightarrow> r < 20 \<or> 100000 < r"
proof -
  have "map_sum id maxVisibilityRadiusM
           (checkInputData env a2n (Some r) t origin north st nc) = check_radius (Some r)"
    using assms by (rule checkInputData_radius)
  then show ?thesis
    by (cases "checkInputData env a2n (Some r) t origin north st nc")
       (auto simp: check_radius_def split: if_splits)
qed

text \<open>
  Claim C2 (default radius of 100 meters; radii outside 20..100000 refused). The header
  of the source documents the default as 100 meters. The code does not apply it: with no
  radius plugged in, \<^verbatim>\<open>checkInputData\<close> returns the working radius 200, and the cutting
  radius, computed from the raw input \<^verbatim>\<open>None\<close>, raises a TypeError. The range part of
  the claim holds (\<open>radius_outside_range_rejected\<close>).
\<close>

theorem default_radius_is_200_not_100:
  "map_sum id maxVisibilityRadiusM
     (checkInputData
        \<lparr>has_mapwingisFolder = True, mapWinGIS_valid = True, has_MapWinGIS = True,
         folderCreatedSuccess = True\<rparr>
        angle2northClockwise None None None None None None) = Inr 200
   \<and> cuttingRadiusScaled None 1 = Inl TypeError"
  by (simp add: checkInputData_def check_radius_def check_north_def cuttingRadiusScaled_def)

text \<open>
  Claim C3 (radii from 20 up to 200 are raised to a working radius of 200, the cut keeps
  the raw radius). When the other inputs are accepted: a supplied radius \<open>r\<close> with
  \<open>20 \<le> r < 200\<close> gives the working radius 200 while the cutting radius is \<open>r\<close> in
  scaled units; with no radius the working radius is 200 too (and the cut, which has no
  number to read, raises); a radius is refused as too small exactly when it is below 20,
  and among the radii below 200 those are the only ones refused.
\<close>

theorem small_radius_raised_to_200:
  assumes "other_inputs_ok env north" and "ucf2 \<noteq> 0" and "20 \<le> r" and "r < 200"
  shows "run_radii env a2n (Some r) t origin north st nc ucf2
           = Inr (200, Inr (r / ucf2 * scaleFactor))
       \<and> run_radii env a2n None t origin north st nc ucf2 = Inr (200, Inl TypeError)
       \<and> (\<forall>r'. (checkInputData env a2n (Some r') t origin north st nc = Inl RadiusBelow20
                  \<longleftrightarrow> r' < 20)
              \<and> (r' < 200 \<longrightarrow>
                   ((\<exists>e. checkInputData env a2n (Some r') t origin north st nc = Inl e)
                      \<longleftrightarrow> r' < 20)))"
proof -
  have R: "map_sum id maxVisibilityRadiusM
           (checkInputData env a2n radius t origin north st nc) = check_radius radius"
    for radius
    using assms(1) by (rule checkInputData_radius)
  have 1: "run_radii env a2n (Some r) t origin north st nc ucf2
              = Inr (200, Inr (r / ucf2 * scaleFactor))"
    using R[of "Some r"] assms(2,3,4)
    by (cases "checkInputData env a2n (Some r) t origin north st nc")
       (auto simp: run_radii_def check_radius_def cuttingRadiusScaled_def)
  have 2: "run_radii env a2n None t origin north st nc ucf2 = Inr (200, Inl TypeError)"
    using R[of None]
    by (cases "checkInputData env a2n None t origin north st nc")
       (auto simp: run_radii_def check_radius_def cuttingRadiusScaled_def)
  have 3: "checkInputData env a2n (Some r') t origin north st nc = Inl RadiusBelow20
             \<longleftrightarrow> r' < 20" for r'
    using R[of "Some r'"]
    by (cases "checkInputData env a2n (Some r') t origin north st nc")
       (auto simp: check_radius_def split: if_splits)
  have 4: "(\<exists>e. checkInputData env a2n (Some r') t origin north st nc = Inl e) \<longleftrightarrow> r' < 20"
    if "r' < 200" for r'
    using radius_outside_range_rejected[OF assms(1), of a2n r' t origin st nc] that by auto
  from 1 2 3 4 show ?thesis by blast
qed

theorem small_radius_raised_to_200_witness:
  "other_inputs_ok
     \<lparr>has_mapwingisFolder = True, mapWinGIS_valid = True, has_MapWinGIS = True,
      folderCreatedSuccess = True\<rparr> None
   \<and> (1::real) \<noteq> 0 \<and> (20::real) \<le> 50 \<and> (50::real) < 200
   \<and> run_radii
        \<lparr>has_mapwingisFolder = True, mapWinGIS_valid = True, has_MapWinGIS = True,
         folderCreatedSuccess = True\<rparr> (\<lambda>n. 0) (Some 50) None None None None None 1
       = Inr (200, Inr (1 / 2))
   \<and> (\<exists>e. checkInputData
        \<lparr>has_mapwingisFolder = True, mapWinGIS_valid = True, has_MapWinGIS = True,
         folderCreatedSuccess = True\<rparr> (\<lambda>n. 0) (Some 19) None None None None None = Inl e)"
proof -
  let ?env = "\<lparr>has_mapwingisFolder = True, mapWinGIS_valid = True, has_MapWinGIS = True,
      folderCreatedSuccess = True\<rparr>"
  have ok: "other_inputs_ok ?env None" by (simp add: other_inputs_ok_def)
  have u: "(1::real) \<noteq> 0" and lo: "(20::real) \<le> 50" and hi: "(50::real) < 200" by simp_all
  note inst = small_radius_raised_to_200[OF ok u lo hi, of "\<lambda>n. 0" None None None None]
  from inst have a: "run_radii ?env (\<lambda>n. 0) (Some 50) None None None None None 1
       = Inr (200, Inr (1 / 2))"
    by (simp add: scaleFactor_def)
  from inst have "(19::real) < 200 \<longrightarrow>
      ((\<exists>e. checkInputData ?env (\<lambda>n. 0) (Some 19) None None None None None = Inl e)
         \<longleftrightarrow> (19::real) < 20)"
    by blast
  then have b: "\<exists>e. checkInputData ?env (\<lambda>n. 0) (Some 19) None None None None None = Inl e"
    by simp
  from ok u lo hi a b show ?thesis by blast
qed

text \<open>
  Claim C6 (effective clip radius). For every radius \<open>r\<close> the cutting radius is \<open>r\<close>
  when \<open>r < 200\<close> and \<open>r * 0.9\<close> otherwise, divided by the unit conversion factor and
  scaled by 0.01; the cuboids (types 0 and 2) have it as half-width and the spheres (types
  1 and 3) as radius.
\<close>

theorem effective_clip_radius:
  fixes r ucf2 :: real
  assumes "ucf2 \<noteq> 0"
  defines "eff \<equiv> (if r < 200 then r else r * 0.9) / ucf2 * scaleFactor"
  shows "cuttingRadiusScaled (Some r) ucf2 = Inr eff
       \<and> cutting_solid 0 locationPt eff
           = Inr (Box locationPt (- eff, eff) (- eff, eff) (- eff * 8, eff * 8))
       \<and> cutting_solid 2 locationPt eff
           = Inr (Box locationPt (- eff, eff) (- eff, eff) (- eff * 5, eff * 5))
       \<and> cutting_solid 1 locationPt eff = Inr (Sphere locationPt eff)
       \<and> cutting_solid 3 locationPt eff = Inr (Sphere locationPt eff)"
  using assms by (simp add: cuttingRadiusScaled_def cutting_solid_def)

theorem effective_clip_radius_witness:
  "(1::real) \<noteq> 0
   \<and> cuttingRadiusScaled (Some 500) 1 = Inr (9 / 2)
   \<and> cuttingRadiusScaled (Some 100) 1 = Inr 1
   \<and> cutting_solid 1 \<lparr>X = 0, Y = 0, Z = 3\<rparr> (9 / 2) = Inr (Sphere \<lparr>X = 0, Y = 0, Z = 3\<rparr> (9 / 2))"
proof -
  have u: "(1::real) \<noteq> 0" by simp
  from effective_clip_radius[OF u, of 500 "\<lparr>X = 0, Y = 0, Z = 3\<rparr>"]
  have a: "cuttingRadiusScaled (Some 500) 1 = Inr (9 / 2)
     \<and> cutting_solid 1 \<lparr>X = 0, Y = 0, Z = 3\<rparr> (9 / 2) = Inr (Sphere \<lparr>X = 0, Y = 0, Z = 3\<rparr> (9 / 2))"
    by (simp add: scaleFactor_def)
  from effective_clip_radius[OF u, of 100 "\<lparr>X = 0, Y = 0, Z = 3\<rparr>"]
  have b: "cuttingRadiusScaled (Some 100) 1 = Inr 1"
    by (simp add: scaleFactor_def)
  from u a b show ?thesis by blast
qed

subsection \<open>The radius policy\<close>

lemma radius_policy_cases:
  "radius_policy lat d r =
     (if d < 200 then
        (Dummy, False, TooCloseToBoundary (if 0 \<le> lat then ''60 North'' else ''-56 South''))
      else if d < r then
        (Meters (of_int \<lfloor>d\<rfloor>), False,
         SupplyRadius \<lfloor>d\<rfloor> (if 0 \<le> lat then ''60 North'' else ''-56 South''))
      else (Meters r, True, Ok))"
  by (simp add: radius_policy_def py_int_def Let_def)

lemma policy_when_distance_known:
  assumes "vincenty_inverse lat lon = Inr (d, fb, rb)"
  shows "distanceBetweenTwoPoints lat lon r = Inr (radius_policy lat d r)"
  using assms by (simp add: distanceBetweenTwoPoints_def)

lemma inverse_loop_first_raises:
  "step lam = Inl e \<Longrightarrow> inverse_loop (Suc n) step lam = Inl e"
  by (cases n) simp_all

lemma inverse_step_coincident:
  "inverse_step 0 s c s c 0 = Inl ZeroDivisionError"
  by (simp add: inverse_step_def Let_def)

lemma vincenty_inverse_on_the_bound:
  assumes "SRTM_latitude lat = lat"
  shows "vincenty_inverse lat lon = Inl ZeroDivisionError"
proof -
  have "inverse_loop (Suc 99) (inverse_step 0 s c s c) 0 = Inl ZeroDivisionError" for s c
    by (rule inverse_loop_first_raises) (rule inverse_step_coincident)
  then have "inverse_loop 100 (inverse_step 0 s c s c) 0 = Inl ZeroDivisionError" for s c
    by simp
  then show ?thesis
    using assms by (simp add: vincenty_inverse_def Let_def)
qed

text \<open>
  Claim C1 (radius clamper policy for every centre). Whenever the inverse solution
  returns a distance, the function answers by the three cases of the policy
  (\<open>policy_when_distance_known\<close> with \<open>radius_policy_cases\<close>). For a centre on the bound
  itself, latitude -56, the distance to the bound is 0, below 200, and the policy asks for
  the refusal of the location; the code instead divides by \<^verbatim>\<open>sinSigma = 0\<close> in the
  first pass of the iteration and raises a ZeroDivisionError. (Latitude 60 would do the
  same; \<^verbatim>\<open>checkObjRasterFile\<close> turns latitudes above 59.99999 away before the call.)
\<close>

theorem centre_on_the_bound_raises:
  "distanceBetweenTwoPoints (- 56) longitude1D maxVisibilityRadius = Inl ZeroDivisionError"
  by (simp add: distanceBetweenTwoPoints_def vincenty_inverse_on_the_bound SRTM_latitude_def)

text \<open>
  Claim C7 (the corrected radius is monotone in the requested radius and never above it).
  As stated the first part fails for fractional radii: the distance is floored when it is
  the smaller value, the requested radius is returned as it is. At a distance of 250.9 m a
  request of 250.7 m is answered by 250.7 and a request of 300 m by 250.
\<close>

theorem clamp_not_monotone_on_fractions:
  "fst (radius_policy 59.9 250.9 250.7) = Meters 250.7
   \<and> fst (radius_policy 59.9 250.9 300) = Meters 250
   \<and> (250.7::real) \<le> 300 \<and> \<not> (250.7::real) \<le> 250"
  by (simp add: radius_policy_cases)

text \<open>
  Claim C7, amended: for a centre at least 200 m from the bound (so that a corrected
  radius is returned), the corrected radius is at most the requested one, and a larger
  request never gets a smaller corrected radius than a request of a whole number of
  meters.
\<close>

theorem clamp_monotone_on_whole_radii:
  assumes "200 \<le> d" and "r1 \<le> r2" and "r1 \<in> \<int>"
  shows "\<exists>c1 c2. fst (radius_policy lat d r1) = Meters c1
             \<and> fst (radius_policy lat d r2) = Meters c2
             \<and> c1 \<le> c2 \<and> c1 \<le> r1 \<and> c2 \<le> r2"
proof -
  from assms(3) obtain k :: int where k: "r1 = of_int k" by (auto elim: Ints_cases)
  have fl: "of_int \<lfloor>d\<rfloor> \<le> d" by (rule of_int_floor_le)
  have up: "r1 \<le> of_int \<lfloor>d\<rfloor>" if "r1 \<le> d"
    using that k by (simp add: le_floor_iff)
  consider "d < r1" | "r1 \<le> d" "d < r2" | "r2 \<le> d" using assms(2) by linarith
  then show ?thesis
  proof cases
    case 1
    then have "d < r2" using assms(2) by linarith
    with 1 assms(1) fl show ?thesis by (simp add: radius_policy_cases, linarith)
  next
    case 2
    with assms(1) fl up show ?thesis by (simp add: radius_policy_cases, linarith)
  next
    case 3
    then have "r1 \<le> d" using assms(2) by linarith
    with 3 assms show ?thesis by (simp add: radius_policy_cases)
  qed
qed

theorem clamp_monotone_on_whole_radii_witness:
  "(200::real) \<le> 250.9 \<and> (250::real) \<le> 300 \<and> (250::real) \<in> \<int>
   \<and> (\<exists>c1 c2. fst (radius_policy 59.9 250.9 250) = Meters c1
          \<and> fst (radius_policy 59.9 250.9 300) = Meters c2
          \<and> c1 \<le> c2 \<and> c1 \<le> 250 \<and> c2 \<le> 300)"
proof -
  have a: "(200::real) \<le> 250.9" and b: "(250::real) \<le> 300" and c: "(250::real) \<in> \<int>"
    by simp_all
  from clamp_monotone_on_whole_radii[OF a b c, of "59.9"] a b c show ?thesis by blast
qed

subsection \<open>The location point\<close>

text \<open>
  Claim C4 (the location point is the hit of the downward ray; without a hit the operation
  fails). The second part fails: the source never tests the parameter returned by the
  intersection. With a kernel that reports no hit (the negative parameter -1) and a unit
  conversion factor of 1, the code returns the point 1 above the start of the ray,
  \<open>(0, 0, 101)\<close>, and the elevation 10100.
\<close>

theorem no_intersection_still_located:
  "locationPt_elevationM (\<lambda>mesh ray. - 1) () 1 = Inr (\<lparr>X = 0, Y = 0, Z = 101\<rparr>, 10100)"
  by (simp add: locationPt_elevationM_def PointAt_def Let_def scaleFactor_def py_round2_def)

text \<open>
  Claim C4, amended: the ray starts on the vertical through the world origin at height
  \<open>10000 / unitConversionFactor2\<close> in scaled units and points down; the location point is
  the point of the ray at the parameter \<open>t\<close> the intersection returns, that is
  \<open>(0, 0, height - t)\<close>, and the elevation its height divided by the scale factor, rounded
  to two decimals. This holds for every returned parameter: a location point and an
  elevation are always produced.
\<close>

theorem location_point_always_produced:
  assumes "ucf2 \<noteq> 0"
  shows "locationPt_elevationM MeshRay terrainMesh ucf2 =
           Inr (\<lparr>X = 0, Y = 0, Z = 10000 / ucf2 * scaleFactor
                   - MeshRay terrainMesh (\<lparr>X = 0, Y = 0, Z = 10000 / ucf2 * scaleFactor\<rparr>,
                                          \<lparr>X = 0, Y = 0, Z = - 1\<rparr>)\<rparr>,
                py_round2 ((10000 / ucf2 * scaleFactor
                   - MeshRay terrainMesh (\<lparr>X = 0, Y = 0, Z = 10000 / ucf2 * scaleFactor\<rparr>,
                                          \<lparr>X = 0, Y = 0, Z = - 1\<rparr>)) / scaleFactor))"
  using assms by (simp add: locationPt_elevationM_def PointAt_def Let_def)

theorem location_point_always_produced_witness:
  "(1::real) \<noteq> 0
   \<and> locationPt_elevationM (\<lambda>mesh ray. 73 / 2) () 1
       = Inr (\<lparr>X = 0, Y = 0, Z = 127 / 2\<rparr>, 6350)"
proof -
  have u: "(1::real) \<noteq> 0" by simp
  from location_point_always_produced[OF u, of "\<lambda>mesh ray. 73 / 2" "()"]
  have "locationPt_elevationM (\<lambda>mesh ray. 73 / 2) () 1
       = Inr (\<lparr>X = 0, Y = 0, Z = 127 / 2\<rparr>, 6350)"
    by (simp add: scaleFactor_def py_round2_def)
  with u show ?thesis by blast
qed

subsection \<open>The fragment that is kept\<close>

lemma sort_head_least:
  fixes xs :: "'a::linorder list"
  assumes "sort xs = p # rest"
  shows "p \<in> set xs \<and> (\<forall>q\<in>set xs. p \<le> q)"
proof -
  have "set (p # rest) = set xs" using assms by (metis set_sort)
  moreover have "sorted (p # rest)" using assms by (metis sorted_sort)
  ultimately show ?thesis by auto
qed

lemma set_distance_pairs:
  "set (map (\<lambda>(i, m). (DistanceTo (Centroid m) loc, i)) (List.enumerate 0 ms))
     = {(DistanceTo (Centroid (ms ! i)) loc, i) | i. i < length ms}"
  by (auto simp: in_set_enumerate_eq image_iff)

lemma kept_fragment_is_nearest:
  assumes "ms \<noteq> []"
  shows "\<exists>i<length ms. terrain_MeshOrBrep_Splitted Centroid loc ms = Inr (ms ! i)
          \<and> (\<forall>j<length ms. DistanceTo (Centroid (ms ! i)) loc \<le> DistanceTo (Centroid (ms ! j)) loc)
          \<and> (\<forall>j<i. DistanceTo (Centroid (ms ! i)) loc < DistanceTo (Centroid (ms ! j)) loc)"
proof -
  let ?ps = "map (\<lambda>(i, m). (DistanceTo (Centroid m) loc, i)) (List.enumerate 0 ms)"
  have "length (sort ?ps) = length ms" by simp
  with assms obtain p rest where s: "sort ?ps = p # rest"
    by (cases "sort ?ps") auto
  obtain d i where p: "p = (d, i)" by (cases p)
  from sort_head_least[OF s] have mem: "p \<in> set ?ps" and least: "\<forall>q\<in>set ?ps. p \<le> q"
    by blast+
  from mem p have i: "i < length ms" and d: "d = DistanceTo (Centroid (ms ! i)) loc"
    unfolding set_distance_pairs by auto
  have le: "(d, i) \<le> (DistanceTo (Centroid (ms ! j)) loc, j)" if "j < length ms" for j
    using least that p unfolding set_distance_pairs by blast
  have "terrain_MeshOrBrep_Splitted Centroid loc ms = Inr (ms ! i)"
    using s p i by (simp add: terrain_MeshOrBrep_Splitted_def tupleDistanceToLocationPt_def)
  moreover have "DistanceTo (Centroid (ms ! i)) loc \<le> DistanceTo (Centroid (ms ! j)) loc"
    if "j < length ms" for j
    using le[OF that] d by auto
  moreover have "DistanceTo (Centroid (ms ! i)) loc < DistanceTo (Centroid (ms ! j)) loc"
    if "j < i" for j
  proof -
    from that i have "j < length ms" by simp
    from le[OF this] that d show ?thesis by auto
  qed
  ultimately show ?thesis using i by blast
qed

text \<open>
  Claim C5 (the nearest fragment is kept, ties go to the first index, and the choice does
  not depend on the order of the fragments). The last part fails when two fragments are
  equally near: of two fragments with centroids \<open>(1, 0, 0)\<close> and \<open>(-1, 0, 0)\<close>, both at
  distance 1 from the location point \<open>(0, 0, 0)\<close>, the one listed first is kept.
\<close>

theorem tie_depends_on_order:
  "mset [\<lparr>X = 1, Y = 0, Z = 0\<rparr>, \<lparr>X = - 1, Y = 0, Z = 0\<rparr>]
     = mset [\<lparr>X = - 1, Y = 0, Z = 0\<rparr>, \<lparr>X = 1, Y = 0, Z = 0\<rparr>]
   \<and> terrain_MeshOrBrep_Splitted id \<lparr>X = 0, Y = 0, Z = 0\<rparr>
        [\<lparr>X = 1, Y = 0, Z = 0\<rparr>, \<lparr>X = - 1, Y = 0, Z = 0\<rparr>] = Inr \<lparr>X = 1, Y = 0, Z = 0\<rparr>
   \<and> terrain_MeshOrBrep_Splitted id \<lparr>X = 0, Y = 0, Z = 0\<rparr>
        [\<lparr>X = - 1, Y = 0, Z = 0\<rparr>, \<lparr>X = 1, Y = 0, Z = 0\<rparr>] = Inr \<lparr>X = - 1, Y = 0, Z = 0\<rparr>"
  by (simp add: terrain_MeshOrBrep_Splitted_def tupleDistanceToLocationPt_def DistanceTo_def)

text \<open>
  Claim C5, amended: of \<open>N \<ge> 1\<close> fragments the one kept has the smallest distance from
  its centroid to the location point, and among equally near fragments the smallest
  index; when every other fragment is strictly farther, every reordering of the fragments
  keeps the same fragment.
\<close>

theorem nearest_fragment_kept:
  assumes "ms \<noteq> []"
  shows "\<exists>i<length ms. terrain_MeshOrBrep_Splitted Centroid loc ms = Inr (ms ! i)
          \<and> (\<forall>j<length ms. DistanceTo (Centroid (ms ! i)) loc \<le> DistanceTo (Centroid (ms ! j)) loc)
          \<and> (\<forall>j<i. DistanceTo (Centroid (ms ! i)) loc < DistanceTo (Centroid (ms ! j)) loc)
          \<and> ((\<forall>j<length ms. j \<noteq> i \<longrightarrow>
                 DistanceTo (Centroid (ms ! i)) loc < DistanceTo (Centroid (ms ! j)) loc) \<longrightarrow>
               (\<forall>ms'. mset ms' = mset ms \<longrightarrow>
                  terrain_MeshOrBrep_Splitted Centroid loc ms' = Inr (ms ! i)))"
proof -
  let ?dist = "\<lambda>m. DistanceTo (Centroid m) loc"
  from kept_fragment_is_nearest[OF assms, of Centroid loc]
  obtain i where i: "i < length ms"
    and sel: "terrain_MeshOrBrep_Splitted Centroid loc ms = Inr (ms ! i)"
    and least: "\<forall>j<length ms. ?dist (ms ! i) \<le> ?dist (ms ! j)"
    and first: "\<forall>j<i. ?dist (ms ! i) < ?dist (ms ! j)"
    by blast
  have perm: "terrain_MeshOrBrep_Splitted Centroid loc ms' = Inr (ms ! i)"
    if strict: "\<forall>j<length ms. j \<noteq> i \<longrightarrow> ?dist (ms ! i) < ?dist (ms ! j)"
      and m: "mset ms' = mset ms" for ms'
  proof -
    from m have sets: "set ms' = set ms" by (rule mset_eq_setD)
    from m assms have ne: "ms' \<noteq> []" by auto
    from kept_fragment_is_nearest[OF ne, of Centroid loc]
    obtain k where k: "k < length ms'"
      and sel': "terrain_MeshOrBrep_Splitted Centroid loc ms' = Inr (ms' ! k)"
      and least': "\<forall>j<length ms'. ?dist (ms' ! k) \<le> ?dist (ms' ! j)"
      by blast
    from i have "ms ! i \<in> set ms" by (rule nth_mem)
    with sets have "ms ! i \<in> set ms'" by simp
    then obtain j' where j': "j' < length ms'" "ms' ! j' = ms ! i"
      by (auto simp: in_set_conv_nth)
    from least' j'(1) have "?dist (ms' ! k) \<le> ?dist (ms' ! j')" by blast
    with j'(2) have le: "?dist (ms' ! k) \<le> ?dist (ms ! i)" by simp
    from k have "ms' ! k \<in> set ms'" by (rule nth_mem)
    with sets have "ms' ! k \<in> set ms" by simp
    then obtain j where j: "j < length ms" "ms ! j = ms' ! k"
      by (auto simp: in_set_conv_nth)
    have "j = i"
    proof (rule ccontr)
      assume "j \<noteq> i"
      with strict j(1) have "?dist (ms ! i) < ?dist (ms ! j)" by blast
      with j(2) le show False by simp
    qed
    with j sel' show ?thesis by simp
  qed
  show ?thesis
  proof (intro exI[of _ i] conjI impI allI)
    show "i < length ms" by (rule i)
    show "terrain_MeshOrBrep_Splitted Centroid loc ms = Inr (ms ! i)" by (rule sel)
    show "j < length ms \<Longrightarrow> ?dist (ms ! i) \<le> ?dist (ms ! j)" for j using least by blast
    show "j < i \<Longrightarrow> ?dist (ms ! i) < ?dist (ms ! j)" for j using first by blast
    show "terrain_MeshOrBrep_Splitted Centroid loc ms' = Inr (ms ! i)"
      if "\<forall>j<length ms. j \<noteq> i \<longrightarrow> ?dist (ms ! i) < ?dist (ms ! j)" "mset ms' = mset ms" for ms'
      using that by (rule perm)
  qed
qed

lemma distance_example_0: "DistanceTo \<lparr>X = 0, Y = 0, Z = 0\<rparr> \<lparr>X = 0, Y = 0, Z = 0\<rparr> = 0"
  and distance_example_1: "DistanceTo \<lparr>X = 1, Y = 0, Z = 0\<rparr> \<lparr>X = 0, Y = 0, Z = 0\<rparr> = 1"
  and distance_example_2: "DistanceTo \<lparr>X = 0, Y = 2, Z = 0\<rparr> \<lparr>X = 0, Y = 0, Z = 0\<rparr> = 2"
  by (simp_all add: DistanceTo_def)

theorem nearest_fragment_kept_witness:
  "[\<lparr>X = 1, Y = 0, Z = 0\<rparr>, \<lparr>X = 0, Y = 0, Z = 0\<rparr>, \<lparr>X = 0, Y = 2, Z = 0\<rparr>] \<noteq> []
   \<and> terrain_MeshOrBrep_Splitted id \<lparr>X = 0, Y = 0, Z = 0\<rparr>
        [\<lparr>X = 1, Y = 0, Z = 0\<rparr>, \<lparr>X = 0, Y = 0, Z = 0\<rparr>, \<lparr>X = 0, Y = 2, Z = 0\<rparr>]
       = Inr \<lparr>X = 0, Y = 0, Z = 0\<rparr>
   \<and> terrain_MeshOrBrep_Splitted id \<lparr>X = 0, Y = 0, Z = 0\<rparr>
        [\<lparr>X = 0, Y = 2, Z = 0\<rparr>, \<lparr>X = 1, Y = 0, Z = 0\<rparr>, \<lparr>X = 0, Y = 0, Z = 0\<rparr>]
       = Inr \<lparr>X = 0, Y = 0, Z = 0\<rparr>"
proof -
  let ?O = "\<lparr>X = 0, Y = 0, Z = 0\<rparr>"
  let ?B = "\<lparr>X = 1, Y = 0, Z = 0\<rparr>"
  let ?C = "\<lparr>X = 0, Y = 2, Z = 0\<rparr>"
  let ?ms = "[?B, ?O, ?C]"
  let ?dist = "\<lambda>m. DistanceTo (id m) ?O"
  have ne: "?ms \<noteq> []" by simp
  from nearest_fragment_kept[OF ne, of id ?O]
  obtain i where i: "i < length ?ms"
    and sel: "terrain_MeshOrBrep_Splitted id ?O ?ms = Inr (?ms ! i)"
    and least: "\<forall>j<length ?ms. ?dist (?ms ! i) \<le> ?dist (?ms ! j)"
    and perm: "(\<forall>j<length ?ms. j \<noteq> i \<longrightarrow> ?dist (?ms ! i) < ?dist (?ms ! j)) \<longrightarrow>
               (\<forall>ms'. mset ms' = mset ?ms \<longrightarrow>
                  terrain_MeshOrBrep_Splitted id ?O ms' = Inr (?ms ! i))"
    by blast
  from least[rule_format, of 1] have le0: "?dist (?ms ! i) \<le> 0" by (simp add: distance_example_0)
  from i have "i = 0 \<or> i = 1 \<or> i = 2" by auto
  then have i1: "i = 1"
  proof (elim disjE)
    assume "i = 0"
    with le0 show ?thesis by (simp add: distance_example_1)
  next
    assume "i = 1" then show ?thesis .
  next
    assume "i = 2"
    with le0 show ?thesis by (simp add: distance_example_2)
  qed
  have strict: "\<forall>j<length ?ms. j \<noteq> i \<longrightarrow> ?dist (?ms ! i) < ?dist (?ms ! j)"
  proof (intro allI impI)
    fix j assume "j < length ?ms" "j \<noteq> i"
    with i1 have "j = 0 \<or> j = 2" by auto
    then show "?dist (?ms ! i) < ?dist (?ms ! j)"
      using i1 by (auto simp: distance_example_0 distance_example_1 distance_example_2)
  qed
  have m: "mset [?C, ?B, ?O] = mset ?ms" by simp
  from perm strict m have "terrain_MeshOrBrep_Splitted id ?O [?C, ?B, ?O] = Inr (?ms ! i)"
    by blast
  with sel i1 ne show ?thesis by simp
qed


subsection \<open>Division in the inverse solution\<close>

lemma degenerate_step_term:
  assumes "inverse_step L sinU1 cosU1 sinU2 cosU2 lam = Inr st"
    and "cosSqBearingAngleR st = 0"
  shows "cos2SigmaM st = 0"
  using assms by (auto simp: inverse_step_def Let_def split: if_splits)

lemma inverse_step_meridian:
  assumes "cosU1 * sinU2 - sinU1 * cosU2 \<noteq> 0"
  shows "\<exists>st. inverse_step 0 sinU1 cosU1 sinU2 cosU2 0 = Inr st
           \<and> longitudeR st = 0 \<and> cosSqBearingAngleR st = 1"
  using assms by (simp add: inverse_step_def Let_def)

lemma inverse_loop_fixed_point:
  assumes "step 0 = Inr st" and "longitudeR st = 0"
  shows "inverse_loop (Suc n) step 0 = Inr st"
proof (induction n)
  case 0
  show ?case by (simp only: inverse_loop.simps(2) assms(1))
next
  case (Suc n)
  have "inverse_loop (Suc (Suc n)) step 0 = inverse_loop (Suc n) step (longitudeR st)"
    by (subst inverse_loop.simps(3)) (simp only: assms(1) sum.case)
  also have "\<dots> = inverse_loop (Suc n) step 0" by (simp only: assms(2))
  also have "\<dots> = Inr st" by (rule Suc.IH)
  finally show ?case .
qed

lemma tan_injective:
  assumes "- (pi / 2) < x" "x < pi / 2" "- (pi / 2) < y" "y < pi / 2" "tan x = tan y"
  shows "x = y"
proof -
  have "x = arctan (tan x)" using assms(1,2) by (rule arctan_tan[symmetric])
  also have "\<dots> = arctan (tan y)" by (simp only: assms(5))
  also have "\<dots> = y" using assms(3,4) by (rule arctan_tan)
  finally show ?thesis .
qed

lemma radians_strictly_inside:
  assumes "- 90 < lat" "lat < 90"
  shows "- (pi / 2) < radians lat \<and> radians lat < pi / 2"
proof -
  have "lat * pi < 90 * pi"
    using assms(2) by (rule mult_strict_right_mono) simp
  moreover have "(- 90) * pi < lat * pi"
    using assms(1) by (rule mult_strict_right_mono) simp
  ultimately show ?thesis by (simp add: radians_def)
qed

lemma radians_injective: "radians x = radians y \<Longrightarrow> x = y"
  by (simp add: radians_def)

lemma py_tan_at_the_poles:
  "py_tan (radians 90) = 16331239353195370 \<and> py_tan (radians (- 90)) = - 16331239353195370"
  by (simp add: py_tan_def radians_def)

lemma py_tan_inside:
  assumes "- (pi / 2) < x" "x < pi / 2"
  shows "py_tan x = tan x"
  using assms by (simp add: py_tan_def)

lemma SRTM_latitude_inside: "- 90 < SRTM_latitude lat \<and> SRTM_latitude lat < 90"
  by (simp add: SRTM_latitude_def)

lemma reduced_latitudes_differ:
  assumes "- 90 < lat" "lat < 90" "SRTM_latitude lat \<noteq> lat"
  shows "(1 - wgs84_f) * py_tan (radians lat)
           \<noteq> (1 - wgs84_f) * py_tan (radians (SRTM_latitude lat))"
proof
  assume eq: "(1 - wgs84_f) * py_tan (radians lat)
           = (1 - wgs84_f) * py_tan (radians (SRTM_latitude lat))"
  have f: "1 - wgs84_f \<noteq> 0" by (simp add: wgs84_f_def)
  from radians_strictly_inside[OF assms(1,2)]
  have a: "- (pi / 2) < radians lat" "radians lat < pi / 2" by simp_all
  from SRTM_latitude_inside[of lat]
  have "- 90 < SRTM_latitude lat" "SRTM_latitude lat < 90" by simp_all
  from radians_strictly_inside[OF this]
  have b: "- (pi / 2) < radians (SRTM_latitude lat)" "radians (SRTM_latitude lat) < pi / 2"
    by simp_all
  from eq f have "py_tan (radians lat) = py_tan (radians (SRTM_latitude lat))" by simp
  then have "tan (radians lat) = tan (radians (SRTM_latitude lat))"
    by (simp add: py_tan_inside[OF a] py_tan_inside[OF b])
  from tan_injective[OF a b this] have "lat = SRTM_latitude lat" by (rule radians_injective)
  with assms(3) show False by simp
qed

lemma reduced_sines_differ:
  fixes t1 t2 :: real
  assumes "t1 \<noteq> t2"
  shows "1 / sqrt (1 + t1 * t1) * (t2 * (1 / sqrt (1 + t2 * t2)))
           - t1 * (1 / sqrt (1 + t1 * t1)) * (1 / sqrt (1 + t2 * t2)) \<noteq> 0"
proof -
  define c1 where "c1 = 1 / sqrt (1 + t1 * t1)"
  define c2 where "c2 = 1 / sqrt (1 + t2 * t2)"
  have p1: "0 < 1 + t1 * t1" by (rule add_pos_nonneg) simp_all
  have p2: "0 < 1 + t2 * t2" by (rule add_pos_nonneg) simp_all
  have c1: "c1 \<noteq> 0" using p1 by (simp add: c1_def)
  have c2: "c2 \<noteq> 0" using p2 by (simp add: c2_def)
  have "c1 * (t2 * c2) - t1 * c1 * c2 = c1 * c2 * (t2 - t1)"
    by (simp add: algebra_simps)
  moreover have "c1 * c2 * (t2 - t1) \<noteq> 0"
    using c1 c2 assms by simp
  ultimately have "c1 * (t2 * c2) - t1 * c1 * c2 \<noteq> 0" by simp
  then show ?thesis unfolding c1_def c2_def .
qed

lemma inverse_solution_off_the_bound:
  assumes "- 90 < lat" "lat < 90" "SRTM_latitude lat \<noteq> lat"
  shows "\<exists>d fb rb. vincenty_inverse lat lon = Inr (d, fb, rb)"
proof -
  let ?t1 = "(1 - wgs84_f) * py_tan (radians lat)"
  let ?t2 = "(1 - wgs84_f) * py_tan (radians (SRTM_latitude lat))"
  let ?c1 = "1 / sqrt (1 + ?t1 * ?t1)" and ?c2 = "1 / sqrt (1 + ?t2 * ?t2)"
  let ?step = "inverse_step 0 (?t1 * ?c1) ?c1 (?t2 * ?c2) ?c2"
  from reduced_latitudes_differ[OF assms] have "?t1 \<noteq> ?t2" .
  from reduced_sines_differ[OF this] have "?c1 * (?t2 * ?c2) - ?t1 * ?c1 * ?c2 \<noteq> 0" .
  from inverse_step_meridian[OF this] obtain st where
    st: "?step 0 = Inr st" "longitudeR st = 0" by blast
  have "inverse_loop (Suc 99) ?step 0 = Inr st"
    using st by (rule inverse_loop_fixed_point)
  then have "inverse_loop 100 ?step 0 = Inr st" by simp
  then show ?thesis
    by (simp add: vincenty_inverse_def Let_def)
qed

lemma clamper_raises_only_on_the_bound:
  assumes "- 90 < lat" "lat < 90"
  shows "(\<exists>e. distanceBetweenTwoPoints lat lon r = Inl e) \<longleftrightarrow> SRTM_latitude lat = lat"
proof (cases "SRTM_latitude lat = lat")
  case True
  then show ?thesis
    by (simp add: distanceBetweenTwoPoints_def vincenty_inverse_on_the_bound)
next
  case False
  from inverse_solution_off_the_bound[OF assms False, of lon]
  obtain d fb rb where "vincenty_inverse lat lon = Inr (d, fb, rb)" by blast
  with False show ?thesis by (simp add: policy_when_distance_known)
qed

text \<open>
  Claim C9 (the guard on the squared cosine of the bearing; the inverse solution never
  raises a division error and returns a distance). The guard is there: in any pass with
  \<^verbatim>\<open>cosSqBearingAngleR\<close> zero, \<^verbatim>\<open>cos2SigmaM\<close> is 0 (\<open>degenerate_step_term\<close>). The
  source measures from the location to the bound latitude on the same meridian only, so
  the longitude difference is 0 and two points of the equator are never its end points.
  From every location strictly between the poles and off the bound latitude a distance is
  returned (\<open>inverse_solution_off_the_bound\<close>). The division by \<^verbatim>\<open>sinSigma\<close> has no
  guard: from a location on the bound, latitude -56, the first pass divides by zero. It
  is the defect met in claim C1, here in the inverse solution itself.
\<close>

theorem inverse_solution_raises_on_the_bound:
  "vincenty_inverse (- 56) 0 = Inl ZeroDivisionError"
  by (simp add: vincenty_inverse_on_the_bound SRTM_latitude_def)

subsection \<open>The slicing planes\<close>

text \<open>
  With 0 contours requested no plane is computed. For a positive number the planes are
  those of the parameters that the kernel's division of the edge returns.
\<close>

lemma no_contours_requested:
  "contour_plane_heights DivideByCount edge (Some 0) (check_numOfContours (Some 0)) = []"
  by (simp add: contour_plane_heights_def)

lemma contours_follow_the_division:
  "0 < n \<Longrightarrow>
   contour_plane_heights DivideByCount (lo, hi) (Some n) (check_numOfContours (Some n))
     = map (\<lambda>t. lo + t * (hi - lo)) (DivideByCount (lo, hi) n False)"
  by (simp add: contour_plane_heights_def elevationContours_planeOrigins_def
      check_numOfContours_def)

end
